theory Spec2Isabelle
  imports Main
begin

section \<open>The reflection fork script (src/lib/reflection/fork-script.ts)\<close>

text \<open>
  The script is the entry point of a forked child process. It reads the layout from the
  environment, obtains the application, builds an app runner, starts it and then does the
  work of the active reflection stage, reporting to the parent with \<open>process.send\<close>.

  Everything the script calls lives outside it: the module system, \<open>JSON.parse\<close>, the layout
  module, the app runner, the plugin loader, the artifact writer, the error serializer and
  the IPC transport. The model takes them as fields of a \<open>world\<close> record, and records every
  call the script makes, in order, in a trace of events.
\<close>

subsection \<open>Data\<close>

text \<open>A thrown JavaScript \<open>Error\<close>: its name and its message.\<close>

datatype js_error = JsError (err_name: string) (err_message: string)

text \<open>\<open>new Error(msg)\<close>\<close>

definition new_Error :: "string \<Rightarrow> js_error" where
  "new_Error msg = JsError ''Error'' msg"

text \<open>What \<open>serializeError\<close> produces: a plain object with the same kind of fields.\<close>

datatype serialized_error = SerializedError (ser_name: string) (ser_message: string)

text \<open>Values the script only passes along.\<close>

datatype json = Json string
datatype layout = Layout string
datatype plugin = Plugin string
datatype runtime_plugin = RuntimePlugin string
datatype graphql_schema = GraphQLSchema string
datatype schema_settings = SchemaSettings string
datatype app_runner = AppRunner nat

text \<open>
  The parts of \<open>App.PrivateApp\<close> the script reads: \<open>app.private.state.plugins\<close>,
  \<open>app.private.state.schemaComponent.schema\<close> (possibly undefined; the \<open>!\<close> of the source
  is erased at run time) and \<open>app.settings.current.schema\<close>.
\<close>

record private_app =
  plugins :: "plugin list"
  schema :: "graphql_schema option"
  current_schema_settings :: schema_settings

text \<open>The options object given to \<open>createDevAppRunner\<close>.\<close>

record runner_options =
  catchUnhandledErrors :: bool

text \<open>The argument object of \<open>writeArtifacts\<close>.\<close>

record artifacts_args =
  arg_graphqlSchema :: "graphql_schema option"
  arg_layout :: layout
  arg_schemaSettings :: schema_settings
  arg_plugins :: "runtime_plugin list"

text \<open>The \<open>Message\<close> union of \<open>./reflect\<close>, as the script builds its three variants.\<close>

datatype message =
    SuccessPlugin "plugin list"
  | SuccessTypegen
  | ErrorMessage serialized_error

text \<open>How a call ends: it returns a value or it throws.\<close>

datatype 'a completion = Returned 'a | Thrown js_error

text \<open>
  The calls the script makes to the outside, in the order it makes them. A call of
  \<open>process.send\<close> is recorded with its message and with how the call ended.
\<close>

datatype event =
    RequireApp
  | JsonParse string
  | CreateFromData json
  | CreateDevAppRunner layout private_app runner_options
  | Start app_runner
  | IsReflectionStage string
  | ImportAndLoadRuntimePlugins "plugin list"
  | WriteArtifacts artifacts_args
  | ProcessSend message "bool completion"

text \<open>
  The outside of the script for one process invocation. \<open>start\<close> gives the outcome of
  \<open>appRunner.start()\<close> (\<open>None\<close>: it settled, \<open>Some err\<close>: it threw) and the state of the
  application object afterwards.

  The transport has three fields. \<open>process_send_defined\<close> tells whether \<open>process.send\<close>
  exists (the process was forked with an IPC channel). \<open>channel_connected\<close> tells whether
  that channel is still open. \<open>serialize_plugins\<close> is the serialization of a plugin list by
  the transport: \<open>None\<close> when the list has a serial form, \<open>Some err\<close> when serializing it
  throws \<open>err\<close>, as for a descriptor that holds a cycle.
\<close>

record world =
  NEXUS_REFLECTION_LAYOUT :: "string option"
  active_stage :: "string option"
  process_send_defined :: bool
  channel_connected :: bool
  serialize_plugins :: "plugin list \<Rightarrow> js_error option"
  require_app :: "private_app completion"
  JSON_parse :: "string \<Rightarrow> json completion"
  createFromData :: "json \<Rightarrow> layout completion"
  createDevAppRunner :: "layout \<Rightarrow> private_app \<Rightarrow> runner_options \<Rightarrow> app_runner completion"
  start :: "app_runner \<Rightarrow> private_app \<Rightarrow> js_error option \<times> private_app"
  importAndLoadRuntimePlugins :: "plugin list \<Rightarrow> runtime_plugin list completion"
  writeArtifacts :: "artifacts_args \<Rightarrow> unit completion"
  serializeError :: "js_error \<Rightarrow> serialized_error"

subsection \<open>Sequencing, throwing and catching\<close>

text \<open>A computation takes the trace so far and gives its completion and the extended trace.\<close>

type_synonym 'a js = "event list \<Rightarrow> 'a completion \<times> event list"

definition unit_js :: "'a \<Rightarrow> 'a js" where
  "unit_js x = (\<lambda>tr. (Returned x, tr))"

definition throw_js :: "js_error \<Rightarrow> 'a js" where
  "throw_js e = (\<lambda>tr. (Thrown e, tr))"

text \<open>An outside call: it is recorded, then it returns or throws.\<close>

definition extern :: "event \<Rightarrow> 'a completion \<Rightarrow> 'a js" where
  "extern ev r = (\<lambda>tr. (r, tr @ [ev]))"

definition bind_js :: "'a js \<Rightarrow> ('a \<Rightarrow> 'b js) \<Rightarrow> 'b js" where
  "bind_js m f = (\<lambda>tr. case m tr of
       (Returned x, tr') \<Rightarrow> f x tr'
     | (Thrown e, tr') \<Rightarrow> (Thrown e, tr'))"

text \<open>\<open>try { m } catch (err) { h err }\<close>\<close>

definition try_catch :: "'a js \<Rightarrow> (js_error \<Rightarrow> 'a js) \<Rightarrow> 'a js" where
  "try_catch m h = (\<lambda>tr. case m tr of
       (Returned x, tr') \<Rightarrow> (Returned x, tr')
     | (Thrown e, tr') \<Rightarrow> h e tr')"

subsection \<open>The stage selector\<close>

text \<open>
  Modelled from the spec: \<open>isReflectionStage\<close> of \<open>./stage\<close>, which is not among the sources.
  It is a pure predicate over the ambient configuration that tells whether the currently
  active stage equals the candidate; with a stage outside the closed set, or none, every
  call answers false.
\<close>

definition isReflectionStage :: "world \<Rightarrow> string \<Rightarrow> bool" where
  "isReflectionStage w candidate = (active_stage w = Some candidate)"

subsection \<open>Sending to the parent (lines 56 to 66)\<close>

text \<open>
  What a call \<open>process.send(m)\<close> does when \<open>process.send\<close> exists. On a closed channel it
  returns false and nothing reaches the parent. On an open channel the message is
  serialized and written, and the call returns true; serializing throws when the payload
  has no serial form. Of the three messages only \<open>success-plugin\<close> carries application data,
  the plugin list. \<open>success-typegen\<close> is a constant and the payload of \<open>error\<close> is the
  output of \<open>serializeError\<close>, a plain structure made to be transmitted, so these two
  always serialize.
\<close>

definition process_send :: "world \<Rightarrow> message \<Rightarrow> bool completion" where
  "process_send w m =
     (if \<not> channel_connected w then Returned False
      else case m of
        SuccessPlugin ps \<Rightarrow>
          (case serialize_plugins w ps of
             Some err \<Rightarrow> Thrown err
           | None \<Rightarrow> Returned True)
      | SuccessTypegen \<Rightarrow> Returned True
      | ErrorMessage se \<Rightarrow> Returned True)"

text \<open>
  Lines 56 to 62. The value that \<open>process.send\<close> returns is dropped; what it throws is not
  caught here.
\<close>

definition sendDataToParent :: "world \<Rightarrow> message \<Rightarrow> unit js" where
  "sendDataToParent w m =
     (if \<not> process_send_defined w
      then throw_js (new_Error
        ''process.send is undefined, could not send the plugins back to the main process'')
      else bind_js (extern (ProcessSend m (process_send w m)) (process_send w m))
             (\<lambda>_. unit_js ()))"

definition sendErrorToParent :: "world \<Rightarrow> js_error \<Rightarrow> unit js" where
  "sendErrorToParent w err = sendDataToParent w (ErrorMessage (serializeError w err))"

subsection \<open>run (lines 10 to 54)\<close>

text \<open>
  Lines 27 to 54: the two stage branches. The \<open>return\<close> after each successful send ends the
  function, so the \<open>typegen\<close> check is made only when the \<open>plugin\<close> check answered false. In
  the \<open>typegen\<close> branch the plugin loading, the artifact writing and the send of
  \<open>success-typegen\<close> are all inside the \<open>try\<close>.
\<close>

definition stage_work :: "world \<Rightarrow> layout \<Rightarrow> private_app \<Rightarrow> unit js" where
  "stage_work w lay app =
     bind_js (extern (IsReflectionStage ''plugin'') (Returned (isReflectionStage w ''plugin'')))
       (\<lambda>is_plugin.
     if is_plugin then sendDataToParent w (SuccessPlugin (plugins app))
     else
     bind_js (extern (IsReflectionStage ''typegen'') (Returned (isReflectionStage w ''typegen'')))
       (\<lambda>is_typegen.
     if is_typegen then
       try_catch
         (bind_js (extern (ImportAndLoadRuntimePlugins (plugins app))
                     (importAndLoadRuntimePlugins w (plugins app))) (\<lambda>loaded.
          let args = \<lparr> arg_graphqlSchema = schema app,
                       arg_layout = lay,
                       arg_schemaSettings = current_schema_settings app,
                       arg_plugins = loaded \<rparr> in
          bind_js (extern (WriteArtifacts args) (writeArtifacts w args)) (\<lambda>_.
          sendDataToParent w SuccessTypegen)))
         (\<lambda>err. sendErrorToParent w err)
     else unit_js ()))"

text \<open>
  Lines 21 to 25 and what follows them: the start of the app runner inside its
  \<open>try\<close>/\<open>catch\<close>. The \<open>catch\<close> block sends the error and has no \<open>return\<close>, so control goes on
  to the stage branches in both cases, with the application state that \<open>start\<close> left.
\<close>

definition start_then_stage :: "world \<Rightarrow> layout \<Rightarrow> private_app \<Rightarrow> app_runner \<Rightarrow> unit js" where
  "start_then_stage w lay app appRunner =
     (case start w appRunner app of (outcome, app') \<Rightarrow>
        bind_js (try_catch
                   (extern (Start appRunner)
                      (case outcome of None \<Rightarrow> Returned () | Some err \<Rightarrow> Thrown err))
                   (\<lambda>err. sendErrorToParent w err)) (\<lambda>_.
        stage_work w lay app'))"

text \<open>
  Lines 11 to 19. The test of line 11 is JavaScript truthiness: the variable counts as
  missing when it is undefined and also when it is the empty string.
\<close>

definition run_js :: "world \<Rightarrow> unit js" where
  "run_js w =
     (case NEXUS_REFLECTION_LAYOUT w of
        None \<Rightarrow> throw_js (new_Error ''process.env.NEXUS_REFLECTION_LAYOUT is required'')
      | Some s \<Rightarrow>
        if s = [] then throw_js (new_Error ''process.env.NEXUS_REFLECTION_LAYOUT is required'')
        else
        bind_js (extern RequireApp (require_app w)) (\<lambda>app.
        bind_js (extern (JsonParse s) (JSON_parse w s)) (\<lambda>data.
        bind_js (extern (CreateFromData data) (createFromData w data)) (\<lambda>lay.
        bind_js (extern (CreateDevAppRunner lay app \<lparr> catchUnhandledErrors = False \<rparr>)
                   (createDevAppRunner w lay app \<lparr> catchUnhandledErrors = False \<rparr>))
          (\<lambda>appRunner.
        start_then_stage w lay app appRunner)))))"

text \<open>One process invocation: \<open>run()\<close> of line 69, from the empty trace.\<close>

definition run :: "world \<Rightarrow> unit completion \<times> event list" where
  "run w = run_js w []"

subsection \<open>Observations on a trace\<close>

text \<open>
  The messages sent, in order: those given to \<open>process.send\<close> in a call that returned. A
  call that threw sent nothing.
\<close>

fun sent :: "event list \<Rightarrow> message list" where
  "sent [] = []"
| "sent (ProcessSend m (Returned b) # evs) = m # sent evs"
| "sent (_ # evs) = sent evs"

text \<open>The messages that \<open>process.send\<close> was called with, whatever the call did.\<close>

fun send_calls :: "event list \<Rightarrow> message list" where
  "send_calls [] = []"
| "send_calls (ProcessSend m r # evs) = m # send_calls evs"
| "send_calls (_ # evs) = send_calls evs"

text \<open>The messages that the open channel took, in order.\<close>

fun delivered :: "event list \<Rightarrow> message list" where
  "delivered [] = []"
| "delivered (ProcessSend m (Returned True) # evs) = m # delivered evs"
| "delivered (_ # evs) = delivered evs"

text \<open>The constructions of an app runner, in order.\<close>

fun runners_created :: "event list \<Rightarrow> (layout \<times> private_app \<times> runner_options) list" where
  "runners_created [] = []"
| "runners_created (CreateDevAppRunner lay app opts # evs) = (lay, app, opts) # runners_created evs"
| "runners_created (_ # evs) = runners_created evs"

fun is_success :: "message \<Rightarrow> bool" where
  "is_success (SuccessPlugin _) = True"
| "is_success SuccessTypegen = True"
| "is_success (ErrorMessage _) = False"

text \<open>
  The layout is present and deserializes to \<open>lay\<close>: the variable is set and not empty,
  \<open>JSON.parse\<close> accepts it and \<open>Layout.createFromData\<close> returns \<open>lay\<close>.
\<close>

definition layout_deserializes :: "world \<Rightarrow> layout \<Rightarrow> bool" where
  "layout_deserializes w lay =
     (case NEXUS_REFLECTION_LAYOUT w of
        None \<Rightarrow> False
      | Some s \<Rightarrow> s \<noteq> [] \<and>
          (case JSON_parse w s of
             Thrown _ \<Rightarrow> False
           | Returned data \<Rightarrow> createFromData w data = Returned lay))"

text \<open>
  The script gets as far as calling \<open>appRunner.start()\<close>: the layout deserializes to \<open>lay\<close>,
  the application module loads and gives \<open>app\<close>, and the factory returns \<open>appRunner\<close>.
\<close>

definition reaches_start :: "world \<Rightarrow> layout \<Rightarrow> private_app \<Rightarrow> app_runner \<Rightarrow> bool" where
  "reaches_start w lay app appRunner =
     (layout_deserializes w lay \<and> require_app w = Returned app \<and>
      createDevAppRunner w lay app \<lparr> catchUnhandledErrors = False \<rparr> = Returned appRunner)"

text \<open>
  What the stage work of the \<open>typegen\<close> branch does before the success message (lines 40 to
  45): the plugins are imported and loaded, then the artifacts are written from the
  application state \<open>app\<close>. It throws when either call throws.
\<close>

definition typegen_work :: "world \<Rightarrow> layout \<Rightarrow> private_app \<Rightarrow> unit completion" where
  "typegen_work w lay app =
     (case importAndLoadRuntimePlugins w (plugins app) of
        Thrown e \<Rightarrow> Thrown e
      | Returned loaded \<Rightarrow>
          writeArtifacts w \<lparr> arg_graphqlSchema = schema app,
                             arg_layout = lay,
                             arg_schemaSettings = current_schema_settings app,
                             arg_plugins = loaded \<rparr>)"

subsection \<open>Concrete invocations\<close>

text \<open>An application before and after its start, which registers a second plugin.\<close>

definition fresh_app :: private_app where
  "fresh_app = \<lparr> plugins = [Plugin ''prisma''],
                 schema = None,
                 current_schema_settings = SchemaSettings ''default'' \<rparr>"

definition started_app :: private_app where
  "started_app = \<lparr> plugins = [Plugin ''prisma'', Plugin ''shield''],
                   schema = Some (GraphQLSchema ''Query''),
                   current_schema_settings = SchemaSettings ''default'' \<rparr>"

definition boom :: js_error where
  "boom = JsError ''TypeError'' ''cannot read property of undefined''"

definition disk_full :: js_error where
  "disk_full = JsError ''Error'' ''ENOSPC: no space left on device''"

text \<open>
  A forked child in stage \<open>plugin\<close> whose application starts: the layout variable holds
  \<open>{}\<close>, the IPC transport is there and every collaborator succeeds.
\<close>

definition plugin_world :: world where
  "plugin_world =
     \<lparr> NEXUS_REFLECTION_LAYOUT = Some ''{}'',
       active_stage = Some ''plugin'',
       process_send_defined = True,
       channel_connected = True,
       serialize_plugins = (\<lambda>ps. None),
       require_app = Returned fresh_app,
       JSON_parse = (\<lambda>s. if s = ''{}'' then Returned (Json s)
                           else Thrown (JsError ''SyntaxError'' ''Unexpected token'')),
       createFromData = (\<lambda>d. Returned (Layout ''project'')),
       createDevAppRunner = (\<lambda>lay app opts. Returned (AppRunner 0)),
       start = (\<lambda>r app. (None, started_app)),
       importAndLoadRuntimePlugins =
         (\<lambda>ps. Returned (map (\<lambda>p. case p of Plugin n \<Rightarrow> RuntimePlugin n) ps)),
       writeArtifacts = (\<lambda>args. Returned ()),
       serializeError = (\<lambda>e. SerializedError (err_name e) (err_message e)) \<rparr>"

definition typegen_world :: world where
  "typegen_world = plugin_world \<lparr> active_stage := Some ''typegen'' \<rparr>"

text \<open>The same two invocations with a start that throws.\<close>

definition plugin_start_fails :: world where
  "plugin_start_fails = plugin_world \<lparr> start := (\<lambda>r app. (Some boom, app)) \<rparr>"

definition typegen_start_fails :: world where
  "typegen_start_fails = typegen_world \<lparr> start := (\<lambda>r app. (Some boom, app)) \<rparr>"

text \<open>Stage \<open>typegen\<close> with an artifact writer that throws.\<close>

definition typegen_write_fails :: world where
  "typegen_write_fails = typegen_world \<lparr> writeArtifacts := (\<lambda>args. Thrown disk_full) \<rparr>"

text \<open>No stage configured, with a start that settles and with one that throws.\<close>

definition no_stage_world :: world where
  "no_stage_world = plugin_world \<lparr> active_stage := None \<rparr>"

definition no_stage_start_fails :: world where
  "no_stage_start_fails = no_stage_world \<lparr> start := (\<lambda>r app. (Some boom, app)) \<rparr>"

text \<open>The script run outside a fork: \<open>process.send\<close> is undefined.\<close>

definition plugin_no_ipc :: world where
  "plugin_no_ipc = plugin_world \<lparr> process_send_defined := False \<rparr>"

definition typegen_no_ipc :: world where
  "typegen_no_ipc = typegen_world \<lparr> process_send_defined := False \<rparr>"

definition typegen_write_fails_no_ipc :: world where
  "typegen_write_fails_no_ipc = typegen_write_fails \<lparr> process_send_defined := False \<rparr>"

definition plugin_start_fails_no_ipc :: world where
  "plugin_start_fails_no_ipc = plugin_start_fails \<lparr> process_send_defined := False \<rparr>"

text \<open>
  Stage \<open>typegen\<close> with a start that throws before the schema is built and an artifact
  writer that rejects a missing schema.
\<close>

definition no_schema :: js_error where
  "no_schema = JsError ''TypeError'' ''schema is undefined''"

definition typegen_start_and_write_fail :: world where
  "typegen_start_and_write_fail =
     typegen_start_fails \<lparr> writeArtifacts :=
       (\<lambda>args. case arg_graphqlSchema args of
                  None \<Rightarrow> Thrown no_schema
                | Some _ \<Rightarrow> Returned ()) \<rparr>"

definition no_stage_start_fails_no_ipc :: world where
  "no_stage_start_fails_no_ipc = no_stage_start_fails \<lparr> process_send_defined := False \<rparr>"

text \<open>
  A forked child whose plugin descriptors hold a cycle: the transport cannot serialize the
  plugin list. The same with a start that throws, and with a channel that has closed.
\<close>

definition circular :: js_error where
  "circular = JsError ''TypeError'' ''Converting circular structure to JSON''"

definition plugin_unserializable :: world where
  "plugin_unserializable = plugin_world \<lparr> serialize_plugins := (\<lambda>ps. Some circular) \<rparr>"

definition plugin_start_fails_unserializable :: world where
  "plugin_start_fails_unserializable =
     plugin_start_fails \<lparr> serialize_plugins := (\<lambda>ps. Some circular) \<rparr>"

definition cyclic_plugins_world :: world where
  "cyclic_plugins_world = typegen_world \<lparr> serialize_plugins := (\<lambda>ps. Some circular) \<rparr>"

definition closed_channel_world :: world where
  "closed_channel_world = typegen_world \<lparr> channel_connected := False \<rparr>"

text \<open>The environment variable is not set.\<close>

definition no_layout_world :: world where
  "no_layout_world = plugin_world \<lparr> NEXUS_REFLECTION_LAYOUT := None \<rparr>"

section \<open>Properties\<close>

lemma sent_append: "sent (xs @ ys) = sent xs @ sent ys"
  by (induction xs rule: sent.induct) simp_all

lemma runners_created_append:
  "runners_created (xs @ ys) = runners_created xs @ runners_created ys"
  by (induction xs rule: runners_created.induct) simp_all

text \<open>
  C3. When \<open>NEXUS_REFLECTION_LAYOUT\<close> is absent, \<open>run\<close> throws the error of line 12 having
  made no call at all: no app runner was constructed, the app was not started and nothing
  was sent over the channel, so the failure is not reported to the parent.
\<close>

theorem run_missing_layout_throws:
  assumes "NEXUS_REFLECTION_LAYOUT w = None"
  shows "run w = (Thrown (new_Error ''process.env.NEXUS_REFLECTION_LAYOUT is required''), [])"
  using assms by (simp add: run_def run_js_def throw_js_def)


theorem run_missing_layout_throws_witness:
  "NEXUS_REFLECTION_LAYOUT no_layout_world = None \<and>
   run no_layout_world =
     (Thrown (new_Error ''process.env.NEXUS_REFLECTION_LAYOUT is required''), [])"
  using run_missing_layout_throws [of no_layout_world]
  by (simp add: no_layout_world_def plugin_world_def)

subsection \<open>Shared facts about the phases of run\<close>

lemma delivered_append: "delivered (xs @ ys) = delivered xs @ delivered ys"
  by (induction xs rule: delivered.induct) simp_all

lemma send_calls_append: "send_calls (xs @ ys) = send_calls xs @ send_calls ys"
  by (induction xs rule: send_calls.induct) simp_all

lemma process_send_plain:
  "process_send w SuccessTypegen = Returned (channel_connected w)"
  "process_send w (ErrorMessage se) = Returned (channel_connected w)"
  by (simp_all add: process_send_def)

lemmas js_defs = unit_js_def throw_js_def extern_def bind_js_def try_catch_def
  sendDataToParent_def sendErrorToParent_def process_send_plain

lemma reaches_start_parts:
  assumes "reaches_start w lay app appRunner"
  shows "\<exists>s d. NEXUS_REFLECTION_LAYOUT w = Some s \<and> s \<noteq> [] \<and> JSON_parse w s = Returned d \<and>
           createFromData w d = Returned lay \<and> require_app w = Returned app \<and>
           createDevAppRunner w lay app \<lparr> catchUnhandledErrors = False \<rparr> = Returned appRunner"
  using assms
  by (cases "NEXUS_REFLECTION_LAYOUT w")
     (auto simp: reaches_start_def layout_deserializes_def split: completion.splits)

lemma reaches_start_run:
  assumes "reaches_start w lay app appRunner"
  obtains s d where
    "run w = start_then_stage w lay app appRunner
       [RequireApp, JsonParse s, CreateFromData d,
        CreateDevAppRunner lay app \<lparr> catchUnhandledErrors = False \<rparr>]"
proof -
  from reaches_start_parts [OF assms] obtain s d where
    "NEXUS_REFLECTION_LAYOUT w = Some s" "s \<noteq> []" "JSON_parse w s = Returned d"
    "createFromData w d = Returned lay" "require_app w = Returned app"
    "createDevAppRunner w lay app \<lparr> catchUnhandledErrors = False \<rparr> = Returned appRunner"
    by blast
  then have "run w = start_then_stage w lay app appRunner
       [RequireApp, JsonParse s, CreateFromData d,
        CreateDevAppRunner lay app \<lparr> catchUnhandledErrors = False \<rparr>]"
    by (simp add: run_def run_js_def extern_def bind_js_def)
  then show thesis by (rule that)
qed

lemma stage_work_trace:
  "stage_work w lay app tr =
     (fst (stage_work w lay app []), tr @ snd (stage_work w lay app []))"
  by (simp add: stage_work_def js_defs Let_def split: completion.splits)

lemmas run_defs = run_def run_js_def start_then_stage_def stage_work_def isReflectionStage_def
  new_Error_def

lemmas reach_defs = reaches_start_def layout_deserializes_def

subsection \<open>The messaging channel\<close>

text \<open>
  C8, as amended. For every message \<open>m\<close>: when \<open>process.send\<close> is undefined,
  \<open>sendDataToParent m\<close> throws the error of line 58 and makes no call, so sends nothing.
  Otherwise it calls \<open>process.send\<close> exactly once, with exactly \<open>m\<close>, and ends as that call
  ends: when the call returns, \<open>sendDataToParent\<close> returns and \<open>m\<close> is the one message sent,
  and it reaches the parent when the channel took it; when the call throws, as for a payload
  that cannot be serialized, \<open>sendDataToParent\<close> throws the same error and nothing is sent.
\<close>

theorem sendDataToParent_forwards_to_process_send:
  "(\<not> process_send_defined w \<longrightarrow>
      sendDataToParent w m tr =
        (Thrown (new_Error
           ''process.send is undefined, could not send the plugins back to the main process''),
         tr)) \<and>
   (process_send_defined w \<longrightarrow>
      send_calls (snd (sendDataToParent w m tr)) = send_calls tr @ [m] \<and>
      snd (sendDataToParent w m tr) = tr @ [ProcessSend m (process_send w m)]) \<and>
   (process_send_defined w \<and> process_send w m = Returned b \<longrightarrow>
      fst (sendDataToParent w m tr) = Returned () \<and>
      sent (snd (sendDataToParent w m tr)) = sent tr @ [m] \<and>
      delivered (snd (sendDataToParent w m tr)) = delivered tr @ (if b then [m] else [])) \<and>
   (process_send_defined w \<and> process_send w m = Thrown e \<longrightarrow>
      fst (sendDataToParent w m tr) = Thrown e \<and>
      sent (snd (sendDataToParent w m tr)) = sent tr)"
proof (intro conjI impI)
  assume "\<not> process_send_defined w"
  then show "sendDataToParent w m tr =
        (Thrown (new_Error
           ''process.send is undefined, could not send the plugins back to the main process''),
         tr)"
    by (simp add: sendDataToParent_def throw_js_def)
next
  assume d: "process_send_defined w"
  then show tr: "snd (sendDataToParent w m tr) = tr @ [ProcessSend m (process_send w m)]"
    by (simp add: sendDataToParent_def extern_def bind_js_def unit_js_def
          split: completion.splits)
  then show "send_calls (snd (sendDataToParent w m tr)) = send_calls tr @ [m]"
    by (simp add: send_calls_append)
next
  assume a: "process_send_defined w \<and> process_send w m = Returned b"
  then have r: "sendDataToParent w m tr = (Returned (), tr @ [ProcessSend m (Returned b)])"
    by (simp add: sendDataToParent_def extern_def bind_js_def unit_js_def)
  from r show "fst (sendDataToParent w m tr) = Returned ()" by simp
  from r show "sent (snd (sendDataToParent w m tr)) = sent tr @ [m]"
    by (simp add: sent_append)
  from r show "delivered (snd (sendDataToParent w m tr)) = delivered tr @ (if b then [m] else [])"
    by (cases b) (simp_all add: delivered_append)
next
  assume a: "process_send_defined w \<and> process_send w m = Thrown e"
  then have r: "sendDataToParent w m tr = (Thrown e, tr @ [ProcessSend m (Thrown e)])"
    by (simp add: sendDataToParent_def extern_def bind_js_def unit_js_def)
  from r show "fst (sendDataToParent w m tr) = Thrown e" by simp
  from r show "sent (snd (sendDataToParent w m tr)) = sent tr"
    by (simp add: sent_append)
qed

theorem sendDataToParent_forwards_to_process_send_witness:
  "\<not> process_send_defined typegen_no_ipc \<and>
   sendDataToParent typegen_no_ipc SuccessTypegen [RequireApp] =
     (Thrown (new_Error
        ''process.send is undefined, could not send the plugins back to the main process''),
      [RequireApp]) \<and>
   process_send_defined typegen_world \<and>
   process_send typegen_world SuccessTypegen = Returned True \<and>
   snd (sendDataToParent typegen_world SuccessTypegen [RequireApp]) =
     [RequireApp, ProcessSend SuccessTypegen (Returned True)] \<and>
   fst (sendDataToParent typegen_world SuccessTypegen [RequireApp]) = Returned () \<and>
   sent (snd (sendDataToParent typegen_world SuccessTypegen [RequireApp])) = [SuccessTypegen] \<and>
   delivered (snd (sendDataToParent typegen_world SuccessTypegen [RequireApp]))
     = [SuccessTypegen] \<and>
   process_send_defined cyclic_plugins_world \<and>
   process_send cyclic_plugins_world (SuccessPlugin [Plugin ''prisma'']) = Thrown circular \<and>
   fst (sendDataToParent cyclic_plugins_world (SuccessPlugin [Plugin ''prisma'']) [RequireApp])
     = Thrown circular \<and>
   sent (snd (sendDataToParent cyclic_plugins_world (SuccessPlugin [Plugin ''prisma''])
     [RequireApp])) = []"
proof -
  have a: "\<not> process_send_defined typegen_no_ipc"
    by (simp add: typegen_no_ipc_def typegen_world_def plugin_world_def)
  have b: "process_send_defined typegen_world"
    "process_send typegen_world SuccessTypegen = Returned True"
    by (simp_all add: process_send_def typegen_world_def plugin_world_def)
  have c: "process_send_defined cyclic_plugins_world"
    "process_send cyclic_plugins_world (SuccessPlugin [Plugin ''prisma'']) = Thrown circular"
    by (simp_all add: process_send_def cyclic_plugins_world_def typegen_world_def
          plugin_world_def)
  from a sendDataToParent_forwards_to_process_send
         [of typegen_no_ipc SuccessTypegen "[RequireApp]"]
  have one: "sendDataToParent typegen_no_ipc SuccessTypegen [RequireApp] =
     (Thrown (new_Error
        ''process.send is undefined, could not send the plugins back to the main process''),
      [RequireApp])"
    by simp
  from b sendDataToParent_forwards_to_process_send
         [of typegen_world SuccessTypegen "[RequireApp]" True]
  have two: "snd (sendDataToParent typegen_world SuccessTypegen [RequireApp]) =
       [RequireApp, ProcessSend SuccessTypegen (Returned True)]"
    "fst (sendDataToParent typegen_world SuccessTypegen [RequireApp]) = Returned ()"
    "sent (snd (sendDataToParent typegen_world SuccessTypegen [RequireApp])) = [SuccessTypegen]"
    "delivered (snd (sendDataToParent typegen_world SuccessTypegen [RequireApp]))
       = [SuccessTypegen]"
    by simp_all
  from c sendDataToParent_forwards_to_process_send
         [of cyclic_plugins_world "SuccessPlugin [Plugin ''prisma'']" "[RequireApp]" _ circular]
  have three:
    "fst (sendDataToParent cyclic_plugins_world (SuccessPlugin [Plugin ''prisma'']) [RequireApp])
       = Thrown circular"
    "sent (snd (sendDataToParent cyclic_plugins_world (SuccessPlugin [Plugin ''prisma''])
       [RequireApp])) = []"
    by simp_all
  from a b c one two three show ?thesis by simp
qed

text \<open>
  C8 as stated fails where \<open>process.send\<close> is defined and does not take the message. With a
  plugin list that cannot be serialized the call of line 61 throws, so \<open>sendDataToParent\<close>
  throws and sends nothing. On a closed channel the call returns false and the message
  does not reach the parent.
\<close>

theorem sendDataToParent_defined_but_not_delivered:
  "process_send_defined cyclic_plugins_world \<and>
   sendDataToParent cyclic_plugins_world (SuccessPlugin [Plugin ''prisma'']) [] =
     (Thrown circular,
      [ProcessSend (SuccessPlugin [Plugin ''prisma'']) (Thrown circular)]) \<and>
   sent (snd (sendDataToParent cyclic_plugins_world (SuccessPlugin [Plugin ''prisma'']) []))
     = [] \<and>
   process_send_defined closed_channel_world \<and>
   sendDataToParent closed_channel_world SuccessTypegen [] =
     (Returned (), [ProcessSend SuccessTypegen (Returned False)]) \<and>
   delivered (snd (sendDataToParent closed_channel_world SuccessTypegen [])) = []"
  by (simp add: sendDataToParent_def extern_def bind_js_def unit_js_def process_send_def
        cyclic_plugins_world_def closed_channel_world_def typegen_world_def plugin_world_def)

subsection \<open>Stage plugin\<close>

text \<open>
  C4, as amended. For every invocation that reaches the start of the app runner with a
  layout that deserialized, with active stage \<open>plugin\<close>, a start that does not throw,
  \<open>process.send\<close> defined and its call with the \<open>success-plugin\<close> message returning (the
  plugin list can be serialized): \<open>run\<close> returns, exactly one message is sent, it is
  \<open>success-plugin\<close> with the plugin list of the application as it is after the start, no
  \<open>error\<close> message is sent, the send is the last call of the invocation and the \<open>typegen\<close>
  stage check is never made.
\<close>

theorem plugin_stage_sends_success_plugin:
  assumes "reaches_start w lay app appRunner"
    and "active_stage w = Some ''plugin''"
    and "start w appRunner app = (None, app')"
    and "process_send_defined w"
    and "process_send w (SuccessPlugin (plugins app')) = Returned b"
  shows "fst (run w) = Returned () \<and>
         sent (snd (run w)) = [SuccessPlugin (plugins app')] \<and>
         last (snd (run w)) = ProcessSend (SuccessPlugin (plugins app')) (Returned b) \<and>
         IsReflectionStage ''typegen'' \<notin> set (snd (run w))"
proof -
  from assms(1) obtain s d where
    "run w = start_then_stage w lay app appRunner
       [RequireApp, JsonParse s, CreateFromData d,
        CreateDevAppRunner lay app \<lparr> catchUnhandledErrors = False \<rparr>]"
    by (rule reaches_start_run)
  with assms(2-5) show ?thesis
    by (simp add: start_then_stage_def stage_work_def isReflectionStage_def js_defs)
qed

theorem plugin_stage_sends_success_plugin_witness:
  "reaches_start plugin_world (Layout ''project'') fresh_app (AppRunner 0) \<and>
   active_stage plugin_world = Some ''plugin'' \<and>
   start plugin_world (AppRunner 0) fresh_app = (None, started_app) \<and>
   process_send_defined plugin_world \<and>
   process_send plugin_world (SuccessPlugin (plugins started_app)) = Returned True \<and>
   fst (run plugin_world) = Returned () \<and>
   sent (snd (run plugin_world)) = [SuccessPlugin [Plugin ''prisma'', Plugin ''shield'']] \<and>
   last (snd (run plugin_world)) =
     ProcessSend (SuccessPlugin [Plugin ''prisma'', Plugin ''shield'']) (Returned True) \<and>
   IsReflectionStage ''typegen'' \<notin> set (snd (run plugin_world))"
proof -
  have h: "reaches_start plugin_world (Layout ''project'') fresh_app (AppRunner 0)"
    "active_stage plugin_world = Some ''plugin''"
    "start plugin_world (AppRunner 0) fresh_app = (None, started_app)"
    "process_send_defined plugin_world"
    "process_send plugin_world (SuccessPlugin (plugins started_app)) = Returned True"
    by (simp_all add: reaches_start_def layout_deserializes_def process_send_def
          plugin_world_def)
  from plugin_stage_sends_success_plugin [OF h] h show ?thesis
    by (simp add: started_app_def)
qed

text \<open>
  C4 as stated fails at two invocations with a valid layout, stage \<open>plugin\<close> and a start that
  settles. Where \<open>process.send\<close> is undefined, \<open>sendDataToParent\<close> throws at line 58. Where
  it is defined and the plugin list cannot be serialized, the call of line 61 throws, and
  no \<open>try\<close> encloses it. In both \<open>run\<close> throws and no message is sent.
\<close>

theorem plugin_stage_send_fails_sends_nothing:
  "reaches_start plugin_no_ipc (Layout ''project'') fresh_app (AppRunner 0) \<and>
   active_stage plugin_no_ipc = Some ''plugin'' \<and>
   start plugin_no_ipc (AppRunner 0) fresh_app = (None, started_app) \<and>
   run plugin_no_ipc =
     (Thrown (new_Error
        ''process.send is undefined, could not send the plugins back to the main process''),
      [RequireApp, JsonParse ''{}'', CreateFromData (Json ''{}''),
       CreateDevAppRunner (Layout ''project'') fresh_app \<lparr> catchUnhandledErrors = False \<rparr>,
       Start (AppRunner 0), IsReflectionStage ''plugin'']) \<and>
   sent (snd (run plugin_no_ipc)) = [] \<and>
   reaches_start plugin_unserializable (Layout ''project'') fresh_app (AppRunner 0) \<and>
   active_stage plugin_unserializable = Some ''plugin'' \<and>
   start plugin_unserializable (AppRunner 0) fresh_app = (None, started_app) \<and>
   process_send_defined plugin_unserializable \<and>
   run plugin_unserializable =
     (Thrown circular,
      [RequireApp, JsonParse ''{}'', CreateFromData (Json ''{}''),
       CreateDevAppRunner (Layout ''project'') fresh_app \<lparr> catchUnhandledErrors = False \<rparr>,
       Start (AppRunner 0), IsReflectionStage ''plugin'',
       ProcessSend (SuccessPlugin [Plugin ''prisma'', Plugin ''shield'']) (Thrown circular)]) \<and>
   sent (snd (run plugin_unserializable)) = []"
  by (simp add: run_defs js_defs reach_defs process_send_def plugin_no_ipc_def
        plugin_unserializable_def plugin_world_def fresh_app_def started_app_def)

subsection \<open>Stage typegen\<close>

text \<open>
  C5, as amended. For every invocation that reaches the start of the app runner with a
  layout that deserialized, with active stage \<open>typegen\<close>, a start that does not throw,
  plugins that load, a \<open>writeArtifacts\<close> call that does not throw and \<open>process.send\<close>
  defined: \<open>writeArtifacts\<close> is called with the schema of the started application, the
  layout, the current schema settings and the loaded plugins; \<open>run\<close> returns and exactly one
  message is sent, \<open>success-typegen\<close>, which has no payload.
\<close>

theorem typegen_stage_sends_success_typegen:
  assumes "reaches_start w lay app appRunner"
    and "active_stage w = Some ''typegen''"
    and "start w appRunner app = (None, app')"
    and "importAndLoadRuntimePlugins w (plugins app') = Returned loaded"
    and "writeArtifacts w \<lparr> arg_graphqlSchema = schema app', arg_layout = lay,
           arg_schemaSettings = current_schema_settings app', arg_plugins = loaded \<rparr>
         = Returned ()"
    and "process_send_defined w"
  shows "fst (run w) = Returned () \<and>
         sent (snd (run w)) = [SuccessTypegen] \<and>
         WriteArtifacts \<lparr> arg_graphqlSchema = schema app', arg_layout = lay,
           arg_schemaSettings = current_schema_settings app', arg_plugins = loaded \<rparr>
           \<in> set (snd (run w))"
proof -
  from assms(1) obtain s d where
    "run w = start_then_stage w lay app appRunner
       [RequireApp, JsonParse s, CreateFromData d,
        CreateDevAppRunner lay app \<lparr> catchUnhandledErrors = False \<rparr>]"
    by (rule reaches_start_run)
  with assms(2-6) show ?thesis
    by (simp add: start_then_stage_def stage_work_def isReflectionStage_def js_defs)
qed

theorem typegen_stage_sends_success_typegen_witness:
  "reaches_start typegen_world (Layout ''project'') fresh_app (AppRunner 0) \<and>
   active_stage typegen_world = Some ''typegen'' \<and>
   start typegen_world (AppRunner 0) fresh_app = (None, started_app) \<and>
   importAndLoadRuntimePlugins typegen_world (plugins started_app)
     = Returned [RuntimePlugin ''prisma'', RuntimePlugin ''shield''] \<and>
   writeArtifacts typegen_world
     \<lparr> arg_graphqlSchema = schema started_app, arg_layout = Layout ''project'',
       arg_schemaSettings = current_schema_settings started_app,
       arg_plugins = [RuntimePlugin ''prisma'', RuntimePlugin ''shield''] \<rparr> = Returned () \<and>
   process_send_defined typegen_world \<and>
   fst (run typegen_world) = Returned () \<and>
   sent (snd (run typegen_world)) = [SuccessTypegen] \<and>
   WriteArtifacts
     \<lparr> arg_graphqlSchema = Some (GraphQLSchema ''Query''), arg_layout = Layout ''project'',
       arg_schemaSettings = SchemaSettings ''default'',
       arg_plugins = [RuntimePlugin ''prisma'', RuntimePlugin ''shield''] \<rparr>
     \<in> set (snd (run typegen_world))"
proof -
  have h: "reaches_start typegen_world (Layout ''project'') fresh_app (AppRunner 0)"
    "active_stage typegen_world = Some ''typegen''"
    "start typegen_world (AppRunner 0) fresh_app = (None, started_app)"
    "importAndLoadRuntimePlugins typegen_world (plugins started_app)
       = Returned [RuntimePlugin ''prisma'', RuntimePlugin ''shield'']"
    "writeArtifacts typegen_world
       \<lparr> arg_graphqlSchema = schema started_app, arg_layout = Layout ''project'',
         arg_schemaSettings = current_schema_settings started_app,
         arg_plugins = [RuntimePlugin ''prisma'', RuntimePlugin ''shield''] \<rparr> = Returned ()"
    "process_send_defined typegen_world"
    by (simp_all add: reach_defs typegen_world_def plugin_world_def started_app_def)
  from typegen_stage_sends_success_typegen [OF h] h show ?thesis
    by (simp add: started_app_def)
qed

text \<open>
  C5 as stated fails where \<open>process.send\<close> is undefined: start, plugin loading and artifact
  writing all succeed, the send of \<open>success-typegen\<close> throws inside the \<open>try\<close>, the \<open>catch\<close>
  tries to send the error and throws again, and nothing is sent.
\<close>

theorem typegen_stage_without_transport_sends_nothing:
  "reaches_start typegen_no_ipc (Layout ''project'') fresh_app (AppRunner 0) \<and>
   active_stage typegen_no_ipc = Some ''typegen'' \<and>
   start typegen_no_ipc (AppRunner 0) fresh_app = (None, started_app) \<and>
   typegen_work typegen_no_ipc (Layout ''project'') started_app = Returned () \<and>
   fst (run typegen_no_ipc) = Thrown (new_Error
     ''process.send is undefined, could not send the plugins back to the main process'') \<and>
   sent (snd (run typegen_no_ipc)) = []"
  by (simp add: run_defs js_defs reach_defs typegen_work_def typegen_no_ipc_def
        typegen_world_def plugin_world_def fresh_app_def started_app_def)

text \<open>
  C6, as amended. For every invocation that reaches the start of the app runner, with active
  stage \<open>typegen\<close>, a start that does not throw and \<open>process.send\<close> defined: if the stage work
  throws \<open>e\<close> (the plugin loading, or the artifact writing after the plugins loaded), then
  \<open>run\<close> returns, exactly one message is sent, it is the \<open>error\<close> message that carries
  \<open>serializeError e\<close>, and no \<open>success-typegen\<close> is sent. With a serializer that keeps the
  message of \<open>e\<close>, the message field of the serialized error is the message of \<open>e\<close>.
\<close>

theorem typegen_stage_failure_sends_error:
  assumes "reaches_start w lay app appRunner"
    and "active_stage w = Some ''typegen''"
    and "start w appRunner app = (None, app')"
    and "typegen_work w lay app' = Thrown e"
    and "process_send_defined w"
  shows "fst (run w) = Returned () \<and>
         sent (snd (run w)) = [ErrorMessage (serializeError w e)] \<and>
         SuccessTypegen \<notin> set (sent (snd (run w))) \<and>
         (ser_message (serializeError w e) = err_message e \<longrightarrow>
            (\<exists>se. sent (snd (run w)) = [ErrorMessage se] \<and> ser_message se = err_message e))"
proof -
  from assms(1) obtain s d where
    "run w = start_then_stage w lay app appRunner
       [RequireApp, JsonParse s, CreateFromData d,
        CreateDevAppRunner lay app \<lparr> catchUnhandledErrors = False \<rparr>]"
    by (rule reaches_start_run)
  with assms(2-5) show ?thesis
    by (auto simp: start_then_stage_def stage_work_def isReflectionStage_def js_defs
          typegen_work_def split: completion.splits)
qed

theorem typegen_stage_failure_sends_error_witness:
  "reaches_start typegen_write_fails (Layout ''project'') fresh_app (AppRunner 0) \<and>
   active_stage typegen_write_fails = Some ''typegen'' \<and>
   start typegen_write_fails (AppRunner 0) fresh_app = (None, started_app) \<and>
   typegen_work typegen_write_fails (Layout ''project'') started_app = Thrown disk_full \<and>
   process_send_defined typegen_write_fails \<and>
   ser_message (serializeError typegen_write_fails disk_full) = err_message disk_full \<and>
   fst (run typegen_write_fails) = Returned () \<and>
   sent (snd (run typegen_write_fails))
     = [ErrorMessage (SerializedError ''Error'' ''ENOSPC: no space left on device'')] \<and>
   SuccessTypegen \<notin> set (sent (snd (run typegen_write_fails)))"
proof -
  have h: "reaches_start typegen_write_fails (Layout ''project'') fresh_app (AppRunner 0)"
    "active_stage typegen_write_fails = Some ''typegen''"
    "start typegen_write_fails (AppRunner 0) fresh_app = (None, started_app)"
    "typegen_work typegen_write_fails (Layout ''project'') started_app = Thrown disk_full"
    "process_send_defined typegen_write_fails"
    by (simp_all add: reach_defs typegen_work_def typegen_write_fails_def typegen_world_def
          plugin_world_def)
  have k: "serializeError typegen_write_fails disk_full
             = SerializedError ''Error'' ''ENOSPC: no space left on device''"
    by (simp add: typegen_write_fails_def typegen_world_def plugin_world_def disk_full_def)
  from typegen_stage_failure_sends_error [OF h] h k show ?thesis
    by (simp add: disk_full_def)
qed

text \<open>
  C6 as stated fails where \<open>process.send\<close> is undefined: the artifact writer throws, the
  \<open>catch\<close> calls \<open>sendErrorToParent\<close>, which throws at line 58, and no \<open>error\<close> message is
  sent.
\<close>

theorem typegen_failure_without_transport_sends_nothing:
  "reaches_start typegen_write_fails_no_ipc (Layout ''project'') fresh_app (AppRunner 0) \<and>
   active_stage typegen_write_fails_no_ipc = Some ''typegen'' \<and>
   start typegen_write_fails_no_ipc (AppRunner 0) fresh_app = (None, started_app) \<and>
   typegen_work typegen_write_fails_no_ipc (Layout ''project'') started_app = Thrown disk_full \<and>
   fst (run typegen_write_fails_no_ipc) = Thrown (new_Error
     ''process.send is undefined, could not send the plugins back to the main process'') \<and>
   sent (snd (run typegen_write_fails_no_ipc)) = []"
  by (simp add: run_defs js_defs reach_defs typegen_work_def typegen_write_fails_no_ipc_def
        typegen_write_fails_def typegen_world_def plugin_world_def fresh_app_def
        started_app_def)


subsection \<open>A start that throws\<close>

lemma start_throws_then_stage:
  assumes "start w appRunner app = (Some e, app')" and "process_send_defined w"
  shows "start_then_stage w lay app appRunner tr =
           stage_work w lay app'
             (tr @ [Start appRunner,
                    ProcessSend (ErrorMessage (serializeError w e))
                      (Returned (channel_connected w))])"
  using assms by (simp add: start_then_stage_def js_defs)

text \<open>
  C10, as amended. If the layout is present and parses, the app runner is built, the active
  stage is \<open>plugin\<close>, \<open>appRunner.start()\<close> throws \<open>e\<close>, \<open>process.send\<close> is defined and its call
  with the \<open>success-plugin\<close> message returns (the plugin list can be serialized), then the
  invocation sends two messages: first the \<open>error\<close> message with the serialized \<open>e\<close>, then
  \<open>success-plugin\<close> with the plugin list of the application as the failed start left it. So
  a \<open>success-plugin\<close> on the channel does not tell that the start succeeded.
\<close>

theorem plugin_stage_start_failure_sends_error_then_success:
  assumes "reaches_start w lay app appRunner"
    and "active_stage w = Some ''plugin''"
    and "start w appRunner app = (Some e, app')"
    and "process_send_defined w"
    and "process_send w (SuccessPlugin (plugins app')) = Returned b"
  shows "fst (run w) = Returned () \<and>
         sent (snd (run w)) =
           [ErrorMessage (serializeError w e), SuccessPlugin (plugins app')]"
proof -
  from assms(1) obtain s d where
    "run w = start_then_stage w lay app appRunner
       [RequireApp, JsonParse s, CreateFromData d,
        CreateDevAppRunner lay app \<lparr> catchUnhandledErrors = False \<rparr>]"
    by (rule reaches_start_run)
  with assms(2-5) show ?thesis
    by (simp add: start_throws_then_stage stage_work_def isReflectionStage_def js_defs)
qed

theorem plugin_stage_start_failure_sends_error_then_success_witness:
  "reaches_start plugin_start_fails (Layout ''project'') fresh_app (AppRunner 0) \<and>
   active_stage plugin_start_fails = Some ''plugin'' \<and>
   start plugin_start_fails (AppRunner 0) fresh_app = (Some boom, fresh_app) \<and>
   process_send_defined plugin_start_fails \<and>
   process_send plugin_start_fails (SuccessPlugin (plugins fresh_app)) = Returned True \<and>
   fst (run plugin_start_fails) = Returned () \<and>
   sent (snd (run plugin_start_fails)) =
     [ErrorMessage (SerializedError ''TypeError'' ''cannot read property of undefined''),
      SuccessPlugin [Plugin ''prisma'']]"
proof -
  have h: "reaches_start plugin_start_fails (Layout ''project'') fresh_app (AppRunner 0)"
    "active_stage plugin_start_fails = Some ''plugin''"
    "start plugin_start_fails (AppRunner 0) fresh_app = (Some boom, fresh_app)"
    "process_send_defined plugin_start_fails"
    "process_send plugin_start_fails (SuccessPlugin (plugins fresh_app)) = Returned True"
    by (simp_all add: reach_defs process_send_def plugin_start_fails_def plugin_world_def)
  from plugin_stage_start_failure_sends_error_then_success [OF h] h show ?thesis
    by (simp add: plugin_start_fails_def plugin_world_def boom_def fresh_app_def)
qed

text \<open>
  C10 as stated fails at two invocations with stage \<open>plugin\<close> and a start that throws. Where
  \<open>process.send\<close> is undefined, the \<open>catch\<close> of line 23 calls \<open>sendErrorToParent\<close>, which
  throws at line 58, and neither message is sent. Where it is defined and the plugin list
  cannot be serialized, the \<open>error\<close> message is sent and the call of line 61 for
  \<open>success-plugin\<close> throws: one message is sent, not two.
\<close>

theorem plugin_start_failure_send_fails_not_two_messages:
  "reaches_start plugin_start_fails_no_ipc (Layout ''project'') fresh_app (AppRunner 0) \<and>
   active_stage plugin_start_fails_no_ipc = Some ''plugin'' \<and>
   start plugin_start_fails_no_ipc (AppRunner 0) fresh_app = (Some boom, fresh_app) \<and>
   run plugin_start_fails_no_ipc =
     (Thrown (new_Error
        ''process.send is undefined, could not send the plugins back to the main process''),
      [RequireApp, JsonParse ''{}'', CreateFromData (Json ''{}''),
       CreateDevAppRunner (Layout ''project'') fresh_app \<lparr> catchUnhandledErrors = False \<rparr>,
       Start (AppRunner 0)]) \<and>
   sent (snd (run plugin_start_fails_no_ipc)) = [] \<and>
   reaches_start plugin_start_fails_unserializable (Layout ''project'') fresh_app
     (AppRunner 0) \<and>
   active_stage plugin_start_fails_unserializable = Some ''plugin'' \<and>
   start plugin_start_fails_unserializable (AppRunner 0) fresh_app
     = (Some boom, fresh_app) \<and>
   process_send_defined plugin_start_fails_unserializable \<and>
   fst (run plugin_start_fails_unserializable) = Thrown circular \<and>
   sent (snd (run plugin_start_fails_unserializable)) =
     [ErrorMessage (SerializedError ''TypeError'' ''cannot read property of undefined'')]"
  by (simp add: run_defs js_defs reach_defs process_send_def plugin_start_fails_no_ipc_def
        plugin_start_fails_unserializable_def plugin_start_fails_def plugin_world_def
        fresh_app_def boom_def)

text \<open>
  C1, as amended. For every invocation in which the layout is present and deserializes, the
  app runner is built and \<open>process.send\<close> is defined: if \<open>appRunner.start()\<close> throws \<open>e\<close>, then
  whatever stage is active the first message sent is the \<open>error\<close> message that carries the
  serialized \<open>e\<close>. What is sent after it is left open here.
\<close>

theorem start_failure_sends_error_first:
  assumes "reaches_start w lay app appRunner"
    and "start w appRunner app = (Some e, app')"
    and "process_send_defined w"
  shows "\<exists>later. sent (snd (run w)) = ErrorMessage (serializeError w e) # later"
proof -
  from assms(1) obtain s d where r:
    "run w = start_then_stage w lay app appRunner
       [RequireApp, JsonParse s, CreateFromData d,
        CreateDevAppRunner lay app \<lparr> catchUnhandledErrors = False \<rparr>]"
    by (rule reaches_start_run)
  let ?tr = "[RequireApp, JsonParse s, CreateFromData d,
        CreateDevAppRunner lay app \<lparr> catchUnhandledErrors = False \<rparr>,
        Start appRunner,
        ProcessSend (ErrorMessage (serializeError w e)) (Returned (channel_connected w))]"
  have "run w = stage_work w lay app' ?tr"
    using r assms(2,3) by (simp add: start_throws_then_stage)
  then have "snd (run w) = ?tr @ snd (stage_work w lay app' [])"
    using stage_work_trace [of w lay app' ?tr] by simp
  then have "sent (snd (run w)) =
      ErrorMessage (serializeError w e) # sent (snd (stage_work w lay app' []))"
    by (simp add: sent_append)
  then show ?thesis by blast
qed

theorem start_failure_sends_error_first_witness:
  "reaches_start typegen_start_fails (Layout ''project'') fresh_app (AppRunner 0) \<and>
   start typegen_start_fails (AppRunner 0) fresh_app = (Some boom, fresh_app) \<and>
   process_send_defined typegen_start_fails \<and>
   (\<exists>later. sent (snd (run typegen_start_fails)) =
      ErrorMessage (SerializedError ''TypeError'' ''cannot read property of undefined'')
        # later)"
proof -
  have h: "reaches_start typegen_start_fails (Layout ''project'') fresh_app (AppRunner 0)"
    "start typegen_start_fails (AppRunner 0) fresh_app = (Some boom, fresh_app)"
    "process_send_defined typegen_start_fails"
    by (simp_all add: reach_defs typegen_start_fails_def typegen_world_def plugin_world_def)
  have k: "serializeError typegen_start_fails boom =
      SerializedError ''TypeError'' ''cannot read property of undefined''"
    by (simp add: typegen_start_fails_def typegen_world_def plugin_world_def boom_def)
  from start_failure_sends_error_first [OF h] h k show ?thesis
    by simp
qed

text \<open>
  C1 as stated fails at two invocations whose start throws. Without \<open>process.send\<close> no
  \<open>error\<close> message is sent at all. With it and with stage \<open>plugin\<close>, the \<open>error\<close> message is
  followed by a \<open>success-plugin\<close> message, because the \<open>catch\<close> of line 23 does not return.
\<close>

theorem start_failure_not_exactly_one_error:
  "reaches_start no_stage_start_fails_no_ipc (Layout ''project'') fresh_app (AppRunner 0) \<and>
   start no_stage_start_fails_no_ipc (AppRunner 0) fresh_app = (Some boom, fresh_app) \<and>
   sent (snd (run no_stage_start_fails_no_ipc)) = [] \<and>
   reaches_start plugin_start_fails (Layout ''project'') fresh_app (AppRunner 0) \<and>
   start plugin_start_fails (AppRunner 0) fresh_app = (Some boom, fresh_app) \<and>
   sent (snd (run plugin_start_fails)) =
     [ErrorMessage (SerializedError ''TypeError'' ''cannot read property of undefined''),
      SuccessPlugin [Plugin ''prisma'']] \<and>
   is_success (SuccessPlugin [Plugin ''prisma''])"
  by (simp add: run_defs js_defs reach_defs process_send_def no_stage_start_fails_no_ipc_def
        no_stage_start_fails_def no_stage_world_def plugin_start_fails_def plugin_world_def
        fresh_app_def boom_def)

text \<open>
  C2. The claim allows at most one message per invocation. In stage \<open>typegen\<close>, with a start
  that throws and an artifact writer that then throws for want of a schema, \<open>run\<close> sends two:
  the \<open>error\<close> of the start failure and the \<open>error\<close> of the typegen failure. With a
  writer that accepts the missing schema, the \<open>error\<close> is followed by \<open>success-typegen\<close>.
\<close>

theorem start_failure_then_typegen_failure_sends_two:
  "run typegen_start_and_write_fail =
     (Returned (),
      [RequireApp, JsonParse ''{}'', CreateFromData (Json ''{}''),
       CreateDevAppRunner (Layout ''project'') fresh_app \<lparr> catchUnhandledErrors = False \<rparr>,
       Start (AppRunner 0),
       ProcessSend (ErrorMessage
         (SerializedError ''TypeError'' ''cannot read property of undefined''))
         (Returned True),
       IsReflectionStage ''plugin'', IsReflectionStage ''typegen'',
       ImportAndLoadRuntimePlugins [Plugin ''prisma''],
       WriteArtifacts \<lparr> arg_graphqlSchema = None, arg_layout = Layout ''project'',
         arg_schemaSettings = SchemaSettings ''default'',
         arg_plugins = [RuntimePlugin ''prisma''] \<rparr>,
       ProcessSend (ErrorMessage (SerializedError ''TypeError'' ''schema is undefined''))
         (Returned True)]) \<and>
   length (sent (snd (run typegen_start_and_write_fail))) = 2 \<and>
   sent (snd (run typegen_start_fails)) =
     [ErrorMessage (SerializedError ''TypeError'' ''cannot read property of undefined''),
      SuccessTypegen]"
  by (simp add: run_defs js_defs typegen_start_and_write_fail_def typegen_start_fails_def
        typegen_world_def plugin_world_def fresh_app_def boom_def no_schema_def)


subsection \<open>No stage branch\<close>

lemma stage_work_no_stage:
  assumes "active_stage w \<noteq> Some ''plugin''" and "active_stage w \<noteq> Some ''typegen''"
  shows "stage_work w lay app tr =
           (Returned (), tr @ [IsReflectionStage ''plugin'', IsReflectionStage ''typegen''])"
  using assms by (simp add: stage_work_def isReflectionStage_def js_defs)

lemma start_then_stage_no_stage_sent:
  assumes "active_stage w \<noteq> Some ''plugin''" and "active_stage w \<noteq> Some ''typegen''"
  shows "\<forall>m \<in> set (sent (snd (start_then_stage w lay app r tr))) - set (sent tr).
           \<not> is_success m"
  using assms
  by (auto simp: start_then_stage_def stage_work_no_stage js_defs sent_append
           split: prod.splits option.splits)

lemma run_no_stage_no_success:
  assumes "active_stage w \<noteq> Some ''plugin''" and "active_stage w \<noteq> Some ''typegen''"
  shows "\<forall>m \<in> set (sent (snd (run w))). \<not> is_success m"
proof (cases "NEXUS_REFLECTION_LAYOUT w")
  case None
  then show ?thesis by (simp add: run_def run_js_def throw_js_def)
next
  case (Some s)
  show ?thesis
  proof (cases "s = []")
    case True
    with Some show ?thesis by (simp add: run_def run_js_def throw_js_def)
  next
    case False
    show ?thesis
    proof (cases "require_app w")
      case (Thrown e)
      with Some False show ?thesis by (simp add: run_def run_js_def extern_def bind_js_def)
    next
      case app: (Returned app)
      show ?thesis
      proof (cases "JSON_parse w s")
        case (Thrown e)
        with Some False app show ?thesis
          by (simp add: run_def run_js_def extern_def bind_js_def)
      next
        case d: (Returned d)
        show ?thesis
        proof (cases "createFromData w d")
          case (Thrown e)
          with Some False app d show ?thesis
            by (simp add: run_def run_js_def extern_def bind_js_def)
        next
          case lay: (Returned lay)
          show ?thesis
          proof (cases "createDevAppRunner w lay app \<lparr> catchUnhandledErrors = False \<rparr>")
            case (Thrown e)
            with Some False app d lay show ?thesis
              by (simp add: run_def run_js_def extern_def bind_js_def)
          next
            case (Returned r)
            with Some False app d lay have "run w = start_then_stage w lay app r
                [RequireApp, JsonParse s, CreateFromData d,
                 CreateDevAppRunner lay app \<lparr> catchUnhandledErrors = False \<rparr>]"
              by (simp add: run_def run_js_def extern_def bind_js_def)
            with start_then_stage_no_stage_sent [OF assms, of lay app r
                "[RequireApp, JsonParse s, CreateFromData d,
                  CreateDevAppRunner lay app \<lparr> catchUnhandledErrors = False \<rparr>]"]
            show ?thesis by simp
          qed
        qed
      qed
    qed
  qed
qed

text \<open>
  C7, as amended. For every invocation whose active stage is neither \<open>plugin\<close> nor \<open>typegen\<close>
  (another value, or none): no success message is sent; when the start of the app runner
  does not throw, no message at all is sent and \<open>run\<close> returns without a terminal message;
  when the start throws \<open>e\<close> and \<open>process.send\<close> is defined, the \<open>error\<close> message of that
  failure is the only message.
\<close>

theorem no_stage_sends_no_success:
  assumes "active_stage w \<noteq> Some ''plugin''" and "active_stage w \<noteq> Some ''typegen''"
  shows "(\<forall>m \<in> set (sent (snd (run w))). \<not> is_success m) \<and>
         (reaches_start w lay app appRunner \<and> start w appRunner app = (None, app') \<longrightarrow>
            fst (run w) = Returned () \<and> sent (snd (run w)) = []) \<and>
         (reaches_start w lay app appRunner \<and> start w appRunner app = (Some e, app') \<and>
          process_send_defined w \<longrightarrow>
            fst (run w) = Returned () \<and>
            sent (snd (run w)) = [ErrorMessage (serializeError w e)])"
proof (intro conjI impI)
  show "\<forall>m \<in> set (sent (snd (run w))). \<not> is_success m"
    by (rule run_no_stage_no_success [OF assms])
next
  assume a: "reaches_start w lay app appRunner \<and> start w appRunner app = (None, app')"
  then obtain s d where
    "run w = start_then_stage w lay app appRunner
       [RequireApp, JsonParse s, CreateFromData d,
        CreateDevAppRunner lay app \<lparr> catchUnhandledErrors = False \<rparr>]"
    by (blast elim: reaches_start_run)
  with a have r: "run w = (Returned (),
       [RequireApp, JsonParse s, CreateFromData d,
        CreateDevAppRunner lay app \<lparr> catchUnhandledErrors = False \<rparr>,
        Start appRunner, IsReflectionStage ''plugin'', IsReflectionStage ''typegen''])"
    by (simp add: start_then_stage_def stage_work_no_stage [OF assms] js_defs)
  from r show "fst (run w) = Returned ()" by simp
  from r show "sent (snd (run w)) = []" by simp
next
  assume a: "reaches_start w lay app appRunner \<and> start w appRunner app = (Some e, app') \<and>
    process_send_defined w"
  then obtain s d where
    "run w = start_then_stage w lay app appRunner
       [RequireApp, JsonParse s, CreateFromData d,
        CreateDevAppRunner lay app \<lparr> catchUnhandledErrors = False \<rparr>]"
    by (blast elim: reaches_start_run)
  with a have r: "run w = (Returned (),
       [RequireApp, JsonParse s, CreateFromData d,
        CreateDevAppRunner lay app \<lparr> catchUnhandledErrors = False \<rparr>,
        Start appRunner,
        ProcessSend (ErrorMessage (serializeError w e)) (Returned (channel_connected w)),
        IsReflectionStage ''plugin'', IsReflectionStage ''typegen''])"
    by (simp add: start_throws_then_stage stage_work_no_stage [OF assms])
  from r show "fst (run w) = Returned ()" by simp
  from r show "sent (snd (run w)) = [ErrorMessage (serializeError w e)]" by simp
qed

theorem no_stage_sends_no_success_witness:
  "active_stage no_stage_world \<noteq> Some ''plugin'' \<and>
   active_stage no_stage_world \<noteq> Some ''typegen'' \<and>
   reaches_start no_stage_world (Layout ''project'') fresh_app (AppRunner 0) \<and>
   start no_stage_world (AppRunner 0) fresh_app = (None, started_app) \<and>
   fst (run no_stage_world) = Returned () \<and>
   sent (snd (run no_stage_world)) = [] \<and>
   active_stage no_stage_start_fails \<noteq> Some ''plugin'' \<and>
   active_stage no_stage_start_fails \<noteq> Some ''typegen'' \<and>
   reaches_start no_stage_start_fails (Layout ''project'') fresh_app (AppRunner 0) \<and>
   start no_stage_start_fails (AppRunner 0) fresh_app = (Some boom, fresh_app) \<and>
   process_send_defined no_stage_start_fails \<and>
   fst (run no_stage_start_fails) = Returned () \<and>
   sent (snd (run no_stage_start_fails)) =
     [ErrorMessage (serializeError no_stage_start_fails boom)] \<and>
   is_success (ErrorMessage (serializeError no_stage_start_fails boom)) = False"
proof -
  have h: "active_stage no_stage_world \<noteq> Some ''plugin''"
    "active_stage no_stage_world \<noteq> Some ''typegen''"
    by (simp_all add: no_stage_world_def)
  have k: "reaches_start no_stage_world (Layout ''project'') fresh_app (AppRunner 0)"
    "start no_stage_world (AppRunner 0) fresh_app = (None, started_app)"
    by (simp_all add: reach_defs no_stage_world_def plugin_world_def)
  have h': "active_stage no_stage_start_fails \<noteq> Some ''plugin''"
    "active_stage no_stage_start_fails \<noteq> Some ''typegen''"
    by (simp_all add: no_stage_start_fails_def no_stage_world_def)
  have k': "reaches_start no_stage_start_fails (Layout ''project'') fresh_app (AppRunner 0)"
    "start no_stage_start_fails (AppRunner 0) fresh_app = (Some boom, fresh_app)"
    "process_send_defined no_stage_start_fails"
    by (simp_all add: reach_defs no_stage_start_fails_def no_stage_world_def plugin_world_def)
  from no_stage_sends_no_success [OF h, of "Layout ''project''" fresh_app "AppRunner 0"
      started_app] h k
  have one: "fst (run no_stage_world) = Returned () \<and> sent (snd (run no_stage_world)) = []"
    by simp
  from no_stage_sends_no_success [OF h', of "Layout ''project''" fresh_app "AppRunner 0"
      fresh_app boom] h' k'
  have two: "fst (run no_stage_start_fails) = Returned () \<and>
     sent (snd (run no_stage_start_fails)) =
       [ErrorMessage (serializeError no_stage_start_fails boom)]"
    by simp
  from one two h k h' k' show ?thesis by simp
qed

text \<open>
  C7 as stated fails when the start throws: with no stage configured and \<open>process.send\<close>
  defined, the \<open>catch\<close> of line 23 sends the \<open>error\<close> message, so one message is sent.
\<close>

theorem no_stage_start_failure_sends_error:
  "active_stage no_stage_start_fails \<noteq> Some ''plugin'' \<and>
   active_stage no_stage_start_fails \<noteq> Some ''typegen'' \<and>
   run no_stage_start_fails =
     (Returned (),
      [RequireApp, JsonParse ''{}'', CreateFromData (Json ''{}''),
       CreateDevAppRunner (Layout ''project'') fresh_app \<lparr> catchUnhandledErrors = False \<rparr>,
       Start (AppRunner 0),
       ProcessSend (ErrorMessage
         (SerializedError ''TypeError'' ''cannot read property of undefined''))
         (Returned True),
       IsReflectionStage ''plugin'', IsReflectionStage ''typegen'']) \<and>
   sent (snd (run no_stage_start_fails)) =
     [ErrorMessage (SerializedError ''TypeError'' ''cannot read property of undefined'')]"
  by (simp add: run_defs js_defs no_stage_start_fails_def no_stage_world_def plugin_world_def
        fresh_app_def boom_def)

subsection \<open>Construction of the app runner\<close>

lemma start_then_stage_creates_no_runner:
  "runners_created (snd (start_then_stage w lay app r tr)) = runners_created tr"
  by (simp add: start_then_stage_def stage_work_def js_defs Let_def runners_created_append
           split: prod.splits option.splits completion.splits)

text \<open>
  C9. For every invocation whose layout is present and deserializes to \<open>lay\<close> and whose
  application module gives the instance \<open>app\<close>, \<open>run\<close> calls the app runner factory exactly
  once, with \<open>lay\<close>, with \<open>app\<close> and with \<open>catchUnhandledErrors\<close> set to false, whatever
  happens afterwards.
\<close>

theorem run_creates_one_runner:
  assumes "layout_deserializes w lay" and "require_app w = Returned app"
  shows "runners_created (snd (run w)) = [(lay, app, \<lparr> catchUnhandledErrors = False \<rparr>)]"
proof -
  from assms(1) obtain s d where sd: "NEXUS_REFLECTION_LAYOUT w = Some s" "s \<noteq> []"
    "JSON_parse w s = Returned d" "createFromData w d = Returned lay"
    by (cases "NEXUS_REFLECTION_LAYOUT w")
       (auto simp: layout_deserializes_def split: completion.splits)
  show ?thesis
  proof (cases "createDevAppRunner w lay app \<lparr> catchUnhandledErrors = False \<rparr>")
    case (Thrown e)
    with sd assms(2) show ?thesis
      by (simp add: run_def run_js_def extern_def bind_js_def)
  next
    case (Returned r)
    with sd assms(2) have "run w = start_then_stage w lay app r
        [RequireApp, JsonParse s, CreateFromData d,
         CreateDevAppRunner lay app \<lparr> catchUnhandledErrors = False \<rparr>]"
      by (simp add: run_def run_js_def extern_def bind_js_def)
    then show ?thesis by (simp add: start_then_stage_creates_no_runner)
  qed
qed

theorem run_creates_one_runner_witness:
  "layout_deserializes typegen_world (Layout ''project'') \<and>
   require_app typegen_world = Returned fresh_app \<and>
   runners_created (snd (run typegen_world)) =
     [(Layout ''project'', fresh_app, \<lparr> catchUnhandledErrors = False \<rparr>)]"
proof -
  have h: "layout_deserializes typegen_world (Layout ''project'')"
    "require_app typegen_world = Returned fresh_app"
    by (simp_all add: layout_deserializes_def typegen_world_def plugin_world_def)
  from run_creates_one_runner [OF h] h show ?thesis by simp
qed

end
